theory Spec2Isabelle
  imports Main
begin

section \<open>The firestore-backup HTTP handler (function.go)\<close>

text \<open>
  The repository is one Go file: an HTTP handler that reads a JSON body into a
  \<open>backupRequest\<close>, validates it, creates a Firestore admin client and dispatches on the
  action to \<open>backup\<close> (ExportDocuments) or \<open>restore\<close> (ImportDocuments).

  Everything outside the file is a parameter of the model, collected in the record
  \<open>env\<close>: what \<open>io.ReadAll\<close> returns for the body, what \<open>json.Unmarshal\<close> returns for a
  body, whether \<open>apiv1.NewFirestoreAdminClient\<close> succeeds, and what the service answers
  to an export or an import request that reaches it. A Go \<open>error\<close> is modelled by the text
  its \<open>Error()\<close> method returns; \<open>nil\<close> is \<open>None\<close>. A Go panic is the value \<open>Panic\<close>.

  The handler returns either the final state of the response writer or \<open>Panic\<close>,
  together with the list of calls it made, in order, to \<open>validate\<close> and to the admin
  client.
\<close>

subsection \<open>Data\<close>

type_synonym error = string

record backupRequest =
  Action :: string
  Collections :: "string list"
  ProjectId :: string
  Bucket :: string

text \<open>The two request messages of the admin API, with the fields the source sets.\<close>

record ExportDocumentsRequest =
  ExportName :: string
  ExportCollectionIds :: "string list"
  OutputUriPrefix :: string

record ImportDocumentsRequest =
  ImportName :: string
  ImportCollectionIds :: "string list"
  InputUriPrefix :: string

text \<open>
  A long-running operation handle. The only thing the source does with it is
  \<open>op.Wait(ctx)\<close>, whose error result the handle carries.
\<close>

datatype operation = Operation (Wait: "error option")

text \<open>
  What a Go call does: it panics, or it returns. The handler has no \<open>recover\<close>, so a
  panic in a callee ends every caller up to the hosting framework.
\<close>

datatype 'a result = Panic | Return 'a

text \<open>
  A \<open>gax.CallOption\<close> is an interface value. The only option the source ever passes is
  the literal \<open>nil\<close>, here \<open>None\<close>; a real option is opaque.
\<close>

datatype CallOption = CallOption

text \<open>
  The calls the handler makes, with the request message it passes. An entry for
  \<open>ExportDocuments\<close> or \<open>ImportDocuments\<close> records that the handler called the client's
  method, whether or not the method went on to send the request.
\<close>

datatype call =
    CallValidate backupRequest
  | CallNewFirestoreAdminClient
  | CallExportDocuments ExportDocumentsRequest
  | CallImportDocuments ImportDocumentsRequest
  | CallWait operation

record env =
  ReadAll :: "error + string"
  Unmarshal :: "string \<Rightarrow> error + backupRequest"
  NewFirestoreAdminClient :: "error option"
  ExportDocuments :: "ExportDocumentsRequest \<Rightarrow> error + operation"
  ImportDocuments :: "ImportDocumentsRequest \<Rightarrow> error + operation"

subsection \<open>The response writer\<close>

text \<open>
  \<open>http.ResponseWriter\<close>: the status code is fixed by the first \<open>WriteHeader\<close>; a
  \<open>Write\<close> before any \<open>WriteHeader\<close> fixes it to 200; a handler that returns without
  either leaves the default, 200.
\<close>

record ResponseWriter =
  statusCode :: "nat option"
  written :: string

definition StatusOK :: nat where
  "StatusOK = 200"

definition StatusBadRequest :: nat where
  "StatusBadRequest = 400"

definition StatusInternalServerError :: nat where
  "StatusInternalServerError = 500"

definition newResponseWriter :: ResponseWriter where
  "newResponseWriter = \<lparr>statusCode = None, written = []\<rparr>"

definition WriteHeader :: "nat \<Rightarrow> ResponseWriter \<Rightarrow> ResponseWriter" where
  "WriteHeader code w =
     (case statusCode w of
        None \<Rightarrow> w\<lparr>statusCode := Some code\<rparr>
      | Some c \<Rightarrow> w)"

definition Write :: "string \<Rightarrow> ResponseWriter \<Rightarrow> ResponseWriter" where
  "Write bs w =
     (case statusCode w of
        None \<Rightarrow> w\<lparr>statusCode := Some StatusOK, written := written w @ bs\<rparr>
      | Some c \<Rightarrow> w\<lparr>written := written w @ bs\<rparr>)"

text \<open>The status code and the body the client receives.\<close>

definition status :: "ResponseWriter \<Rightarrow> nat" where
  "status w = (case statusCode w of None \<Rightarrow> StatusOK | Some c \<Rightarrow> c)"

definition body :: "ResponseWriter \<Rightarrow> string" where
  "body w = written w"

text \<open>The three-line error exit that the handler repeats: set the code, write the text.\<close>

definition fail :: "nat \<Rightarrow> error \<Rightarrow> ResponseWriter \<Rightarrow> ResponseWriter" where
  "fail code err w = Write err (WriteHeader code w)"

subsection \<open>validate\<close>

definition validate :: "backupRequest \<Rightarrow> error option" where
  "validate r =
     (if ProjectId r = [] then Some ''project is required''
      else if Bucket r = [] then Some ''bucket is required''
      else if Action r = [] then Some ''action is required''
      else if Action r \<noteq> ''backup'' \<and> Action r \<noteq> ''restore''
        then Some ''action must be either backup or restore''
      else if Action r = ''backup'' \<and> Bucket r = []
        then Some ''bucket is required when action is backup''
      else None)"

subsection \<open>backup and restore\<close>

definition exportRequest :: "backupRequest \<Rightarrow> ExportDocumentsRequest" where
  "exportRequest r =
     \<lparr>ExportName = ''projects/'' @ ProjectId r @ ''/databases/(default)'',
      ExportCollectionIds = Collections r,
      OutputUriPrefix = ''gs://'' @ Bucket r @ ''/firestore-backup''\<rparr>"

definition importRequest :: "backupRequest \<Rightarrow> ImportDocumentsRequest" where
  "importRequest r =
     \<lparr>ImportName = ''projects/'' @ ProjectId r @ ''/databases/(default)'',
      ImportCollectionIds = Collections r,
      InputUriPrefix = ''gs://'' @ Bucket r @ ''/firestore-backup''\<rparr>"

text \<open>
  The client's two methods, \<open>ExportDocuments(ctx, req, opts ...gax.CallOption)\<close> and
  \<open>ImportDocuments\<close> likewise. They are library code: the generated client hands its
  options to \<open>gax.Invoke\<close>, which calls \<open>Resolve\<close> on every option before it sends
  anything. On a nil option that is a nil dereference, so the method panics and no
  request leaves; otherwise the service's answer is returned.
\<close>

definition client_ExportDocuments ::
    "env \<Rightarrow> ExportDocumentsRequest \<Rightarrow> CallOption option list \<Rightarrow> (error + operation) result" where
  "client_ExportDocuments e rq opts =
     (if None \<in> set opts then Panic else Return (ExportDocuments e rq))"

definition client_ImportDocuments ::
    "env \<Rightarrow> ImportDocumentsRequest \<Rightarrow> CallOption option list \<Rightarrow> (error + operation) result" where
  "client_ImportDocuments e rq opts =
     (if None \<in> set opts then Panic else Return (ImportDocuments e rq))"

text \<open>
  Both methods take the calls made so far and return the error (or \<open>None\<close> for \<open>nil\<close>),
  or panic, with the calls extended by their own. The source ends both client calls with
  a literal \<open>nil\<close> argument; for a variadic parameter of interface type that is the
  one-element option list \<open>[None]\<close>.
\<close>

definition backup :: "backupRequest \<Rightarrow> env \<Rightarrow> call list \<Rightarrow> error option result \<times> call list" where
  "backup r e cs =
     (case client_ExportDocuments e (exportRequest r) [None] of
        Panic \<Rightarrow> (Panic, cs @ [CallExportDocuments (exportRequest r)])
      | Return (Inl err) \<Rightarrow>
          (Return (Some (''error backing up firestore database: '' @ err)),
           cs @ [CallExportDocuments (exportRequest r)])
      | Return (Inr op) \<Rightarrow>
          (case Wait op of
             Some err \<Rightarrow>
               (Return (Some (''error backing up firestore database: '' @ err)),
                cs @ [CallExportDocuments (exportRequest r), CallWait op])
           | None \<Rightarrow>
               (Return None, cs @ [CallExportDocuments (exportRequest r), CallWait op])))"

definition restore :: "backupRequest \<Rightarrow> env \<Rightarrow> call list \<Rightarrow> error option result \<times> call list" where
  "restore r e cs =
     (case client_ImportDocuments e (importRequest r) [None] of
        Panic \<Rightarrow> (Panic, cs @ [CallImportDocuments (importRequest r)])
      | Return (Inl err) \<Rightarrow>
          (Return (Some (''error restoring firestore database: '' @ err)),
           cs @ [CallImportDocuments (importRequest r)])
      | Return (Inr op) \<Rightarrow>
          (case Wait op of
             Some err \<Rightarrow>
               (Return (Some (''error backing up firestore database: '' @ err)),
                cs @ [CallImportDocuments (importRequest r), CallWait op])
           | None \<Rightarrow>
               (Return None, cs @ [CallImportDocuments (importRequest r), CallWait op])))"

subsection \<open>The handler\<close>

text \<open>
  The \<open>switch req.Action\<close> of the source has the cases \<open>"back"\<close> and \<open>"restore"\<close> and no
  default: any other action leaves the writer untouched. A panic in \<open>backup\<close> or
  \<open>restore\<close> passes through the handler.
\<close>

definition dispatch ::
    "backupRequest \<Rightarrow> env \<Rightarrow> ResponseWriter \<Rightarrow> call list \<Rightarrow> ResponseWriter result \<times> call list" where
  "dispatch req e w cs =
     (if Action req = ''back'' then
        (case backup req e cs of
           (Panic, cs') \<Rightarrow> (Panic, cs')
         | (Return (Some err), cs') \<Rightarrow> (Return (fail StatusInternalServerError err w), cs')
         | (Return None, cs') \<Rightarrow> (Return w, cs'))
      else if Action req = ''restore'' then
        (case restore req e cs of
           (Panic, cs') \<Rightarrow> (Panic, cs')
         | (Return (Some err), cs') \<Rightarrow> (Return (fail StatusInternalServerError err w), cs')
         | (Return None, cs') \<Rightarrow> (Return w, cs'))
      else (Return w, cs))"

definition function_handler :: "env \<Rightarrow> ResponseWriter result \<times> call list" where
  "function_handler e =
     (case ReadAll e of
        Inl err \<Rightarrow> (Return (fail StatusInternalServerError err newResponseWriter), [])
      | Inr bs \<Rightarrow>
          (case Unmarshal e bs of
             Inl err \<Rightarrow> (Return (fail StatusInternalServerError err newResponseWriter), [])
           | Inr req \<Rightarrow>
               (case validate req of
                  Some err \<Rightarrow>
                    (Return (fail StatusBadRequest err newResponseWriter), [CallValidate req])
                | None \<Rightarrow>
                    (case NewFirestoreAdminClient e of
                       Some err \<Rightarrow>
                         (Return (fail StatusInternalServerError err newResponseWriter),
                          [CallValidate req, CallNewFirestoreAdminClient])
                     | None \<Rightarrow>
                         dispatch req e newResponseWriter
                           [CallValidate req, CallNewFirestoreAdminClient]))))"

text \<open>
  The response the handler produced: status code and body when it returned, \<open>None\<close>
  when it panicked (what the client then receives is up to the hosting framework).
\<close>

fun response :: "ResponseWriter result \<Rightarrow> (nat \<times> string) option" where
  "response (Return w) = Some (status w, body w)"
| "response Panic = None"

text \<open>Which recorded calls go to the admin client, and which are export or import calls.\<close>

fun external :: "call \<Rightarrow> bool" where
  "external (CallValidate r) = False"
| "external CallNewFirestoreAdminClient = True"
| "external (CallExportDocuments r) = True"
| "external (CallImportDocuments r) = True"
| "external (CallWait op) = True"

fun is_export :: "call \<Rightarrow> bool" where
  "is_export (CallExportDocuments r) = True"
| "is_export c = False"


subsection \<open>Sample requests and environments\<close>

text \<open>
  \<open>serving req cl out\<close> is an environment in which the body is read and parsed to
  \<open>req\<close>, client creation returns \<open>cl\<close>, and the service answers \<open>out\<close> to any export
  or import request that reaches it.
  \<open>unreadable err\<close> fails in \<open>io.ReadAll\<close>; \<open>malformed err\<close> fails in
  \<open>json.Unmarshal\<close>.
\<close>

definition serving :: "backupRequest \<Rightarrow> error option \<Rightarrow> error + operation \<Rightarrow> env" where
  "serving req cl out =
     \<lparr>ReadAll = Inr ''{}'',
      Unmarshal = (\<lambda>bs. Inr req),
      NewFirestoreAdminClient = cl,
      ExportDocuments = (\<lambda>r. out),
      ImportDocuments = (\<lambda>r. out)\<rparr>"

definition unreadable :: "error \<Rightarrow> env" where
  "unreadable err =
     \<lparr>ReadAll = Inl err,
      Unmarshal = (\<lambda>bs. Inl ''unused''),
      NewFirestoreAdminClient = None,
      ExportDocuments = (\<lambda>r. Inr (Operation None)),
      ImportDocuments = (\<lambda>r. Inr (Operation None))\<rparr>"

definition malformed :: "error \<Rightarrow> env" where
  "malformed err =
     \<lparr>ReadAll = Inr ''{'',
      Unmarshal = (\<lambda>bs. Inl err),
      NewFirestoreAdminClient = None,
      ExportDocuments = (\<lambda>r. Inr (Operation None)),
      ImportDocuments = (\<lambda>r. Inr (Operation None))\<rparr>"

definition mkRequest :: "string \<Rightarrow> string \<Rightarrow> string \<Rightarrow> backupRequest" where
  "mkRequest a p b = \<lparr>Action = a, Collections = [''users'', ''orders''], ProjectId = p, Bucket = b\<rparr>"

definition done_op :: "error + operation" where
  "done_op = Inr (Operation None)"

section \<open>Properties\<close>

lemma fail_new:
  "fail code err newResponseWriter = \<lparr>statusCode = Some code, written = err\<rparr>"
  by (simp add: fail_def Write_def WriteHeader_def newResponseWriter_def)

lemma status_fail_new [simp]: "status (fail code err newResponseWriter) = code"
  by (simp add: fail_new status_def)

lemma body_fail_new [simp]: "body (fail code err newResponseWriter) = err"
  by (simp add: fail_new body_def)

lemma response_fail_new:
  "response (Return (fail code err newResponseWriter)) = Some (code, err)"
  by simp

lemma response_untouched: "response (Return newResponseWriter) = Some (200, [])"
  by (simp add: newResponseWriter_def status_def body_def StatusOK_def)

subsection \<open>What the methods and the dispatch do\<close>

text \<open>
  With the nil option the source passes, both client methods panic before anything is
  sent, whatever the service would have answered; so do \<open>backup\<close> and \<open>restore\<close>.
\<close>

lemma client_ExportDocuments_nil: "client_ExportDocuments e rq [None] = Panic"
  by (simp add: client_ExportDocuments_def)

lemma client_ImportDocuments_nil: "client_ImportDocuments e rq [None] = Panic"
  by (simp add: client_ImportDocuments_def)

lemma backup_panics: "backup r e cs = (Panic, cs @ [CallExportDocuments (exportRequest r)])"
  by (simp add: backup_def client_ExportDocuments_nil)

lemma restore_panics: "restore r e cs = (Panic, cs @ [CallImportDocuments (importRequest r)])"
  by (simp add: restore_def client_ImportDocuments_nil)

lemma dispatch_cases:
  "dispatch req e w cs =
     (if Action req = ''back'' then (Panic, cs @ [CallExportDocuments (exportRequest req)])
      else if Action req = ''restore'' then (Panic, cs @ [CallImportDocuments (importRequest req)])
      else (Return w, cs))"
  by (simp add: dispatch_def backup_panics restore_panics)

lemma handler_dispatches:
  assumes "ReadAll e = Inr bs" and "Unmarshal e bs = Inr req" and "validate req = None"
    and "NewFirestoreAdminClient e = None"
  shows "function_handler e =
           dispatch req e newResponseWriter [CallValidate req, CallNewFirestoreAdminClient]"
  using assms by (simp add: function_handler_def)

text \<open>
  With the switch as written, a validated request whose action is "backup" is dispatched
  to neither method, whatever the service would have answered.
\<close>

lemma validated_backup_not_dispatched:
  assumes "ReadAll e = Inr bs" and "Unmarshal e bs = Inr req" and "validate req = None"
    and "NewFirestoreAdminClient e = None" and "Action req = ''backup''"
  shows "function_handler e =
           (Return newResponseWriter, [CallValidate req, CallNewFirestoreAdminClient])"
  using assms by (simp add: handler_dispatches [OF assms(1-4)] dispatch_cases)


subsection \<open>Validation\<close>

text \<open>
  Claim C4. For every parsed request whose project identifier, bucket or action is empty,
  the handler answers 400 with the message naming the missing field, checked in the order
  project, bucket, action; the only call it makes is \<open>validate\<close>, so no external call.
\<close>

theorem missing_field_bad_request:
  assumes "ReadAll e = Inr bs" and "Unmarshal e bs = Inr req"
    and "ProjectId req = [] \<or> Bucket req = [] \<or> Action req = []"
  shows "response (fst (function_handler e)) =
           Some (400,
             if ProjectId req = [] then ''project is required''
             else if Bucket req = [] then ''bucket is required''
             else ''action is required'') \<and>
         snd (function_handler e) = [CallValidate req] \<and>
         filter external (snd (function_handler e)) = []"
  using assms
  by (auto simp: function_handler_def validate_def response_fail_new StatusBadRequest_def)

text \<open>
  Claim C4 at three requests: an empty project, an empty bucket, an empty action.
\<close>

theorem missing_field_bad_request_witness:
  "response (fst (function_handler (serving (mkRequest ''backup'' [] ''b'') None done_op))) =
     Some (400, ''project is required'') \<and>
   filter external (snd (function_handler (serving (mkRequest ''backup'' [] ''b'') None done_op))) = [] \<and>
   response (fst (function_handler (serving (mkRequest ''backup'' ''p'' []) None done_op))) =
     Some (400, ''bucket is required'') \<and>
   filter external (snd (function_handler (serving (mkRequest ''backup'' ''p'' []) None done_op))) = [] \<and>
   response (fst (function_handler (serving (mkRequest [] ''p'' ''b'') None done_op))) =
     Some (400, ''action is required'') \<and>
   filter external (snd (function_handler (serving (mkRequest [] ''p'' ''b'') None done_op))) = []"
  using missing_field_bad_request [of "serving (mkRequest ''backup'' [] ''b'') None done_op" "''{}''" "mkRequest ''backup'' [] ''b''"]
    missing_field_bad_request [of "serving (mkRequest ''backup'' ''p'' []) None done_op" "''{}''" "mkRequest ''backup'' ''p'' []"]
    missing_field_bad_request [of "serving (mkRequest [] ''p'' ''b'') None done_op" "''{}''" "mkRequest [] ''p'' ''b''"]
  by (simp add: serving_def mkRequest_def)

text \<open>
  Claim C5. For every parsed request whose action is non-empty and neither "backup" nor
  "restore", the handler answers 400 with a descriptive message: the one for a missing
  project or bucket when that check fires first, otherwise "action must be either backup
  or restore". No external call is made.
\<close>

theorem unknown_action_bad_request:
  assumes "ReadAll e = Inr bs" and "Unmarshal e bs = Inr req"
    and "Action req \<noteq> []" and "Action req \<noteq> ''backup''" and "Action req \<noteq> ''restore''"
  shows "response (fst (function_handler e)) =
           Some (400,
             if ProjectId req = [] then ''project is required''
             else if Bucket req = [] then ''bucket is required''
             else ''action must be either backup or restore'') \<and>
         filter external (snd (function_handler e)) = []"
  using assms
  by (auto simp: function_handler_def validate_def response_fail_new StatusBadRequest_def)

text \<open>
  Claim C5 at the action "back".
\<close>

theorem unknown_action_bad_request_witness:
  "Action (mkRequest ''back'' ''p'' ''b'') \<noteq> [] \<and>
   Action (mkRequest ''back'' ''p'' ''b'') \<noteq> ''backup'' \<and>
   Action (mkRequest ''back'' ''p'' ''b'') \<noteq> ''restore'' \<and>
   response (fst (function_handler (serving (mkRequest ''back'' ''p'' ''b'') None done_op))) =
     Some (400, ''action must be either backup or restore'') \<and>
   filter external (snd (function_handler (serving (mkRequest ''back'' ''p'' ''b'') None done_op))) = []"
  using unknown_action_bad_request [of "serving (mkRequest ''back'' ''p'' ''b'') None done_op" "''{}''" "mkRequest ''back'' ''p'' ''b''"]
  by (simp add: serving_def mkRequest_def)

text \<open>
  Claim C9. The backup-specific bucket check of \<open>validate\<close> is dead: for every request
  record, \<open>validate\<close> never returns the error "bucket is required when action is backup",
  since an empty bucket is rejected by the earlier unconditional check.
\<close>

theorem validate_never_backup_bucket_error:
  "validate r \<noteq> Some ''bucket is required when action is backup''"
  by (simp add: validate_def)

subsection \<open>Reading and parsing the body\<close>

text \<open>
  Claim C6. When reading the body fails, or the body does not parse into the request
  record, the handler answers 500 with the error text as the body, and the list of calls
  is empty: neither \<open>validate\<close> nor any external call takes place.
\<close>

theorem unreadable_or_malformed_body_is_500:
  "(ReadAll e = Inl err \<longrightarrow>
      response (fst (function_handler e)) = Some (500, err) \<and>
      snd (function_handler e) = []) \<and>
   (ReadAll e = Inr bs \<and> Unmarshal e bs = Inl err \<longrightarrow>
      response (fst (function_handler e)) = Some (500, err) \<and>
      snd (function_handler e) = [])"
  by (simp add: function_handler_def response_fail_new StatusInternalServerError_def)

text \<open>
  Claim C6 at a body that cannot be read and at a body that does not parse.
\<close>

theorem unreadable_or_malformed_body_is_500_witness:
  "response (fst (function_handler (unreadable ''unexpected EOF''))) =
     Some (500, ''unexpected EOF'') \<and>
   snd (function_handler (unreadable ''unexpected EOF'')) = [] \<and>
   response (fst (function_handler (malformed ''unexpected end of JSON input''))) =
     Some (500, ''unexpected end of JSON input'') \<and>
   snd (function_handler (malformed ''unexpected end of JSON input'')) = []"
  using unreadable_or_malformed_body_is_500 [of "unreadable ''unexpected EOF''" "''unexpected EOF''" "''{''"]
    unreadable_or_malformed_body_is_500 [of "malformed ''unexpected end of JSON input''" "''unexpected end of JSON input''" "''{''"]
  by (simp add: unreadable_def malformed_def)

subsection \<open>Dispatch of a validated request\<close>

text \<open>
  Claim C1 says that a validated request with action "backup" invokes the export
  operation exactly once. The handler's switch tests for "back", so the request
  \<open>{action: backup, project_id: p, bucket: b}\<close> passes validation, creates the client
  and returns with the writer untouched (status 200, empty body) and no export call.
\<close>

theorem backup_request_makes_no_export:
  "validate (mkRequest ''backup'' ''p'' ''b'') = None \<and>
   function_handler (serving (mkRequest ''backup'' ''p'' ''b'') None done_op) =
     (Return \<lparr>statusCode = None, written = []\<rparr>,
      [CallValidate (mkRequest ''backup'' ''p'' ''b''), CallNewFirestoreAdminClient]) \<and>
   response (fst (function_handler (serving (mkRequest ''backup'' ''p'' ''b'') None done_op))) =
     Some (200, []) \<and>
   filter is_export (snd (function_handler (serving (mkRequest ''backup'' ''p'' ''b'') None done_op))) = []"
  by (simp add: function_handler_def dispatch_def validate_def serving_def mkRequest_def
      newResponseWriter_def status_def body_def StatusOK_def)

text \<open>
  Claim C2 says that no validated action is unrecognised by the dispatch. The action
  "backup" passes \<open>validate\<close>, is neither "back" nor "restore", and the dispatch returns
  the writer and the calls as it received them: the fall-through branch is reached.
\<close>

theorem validated_backup_falls_through_dispatch:
  "validate (mkRequest ''backup'' ''my-project'' ''my-bucket'') = None \<and>
   Action (mkRequest ''backup'' ''my-project'' ''my-bucket'') \<noteq> ''back'' \<and>
   Action (mkRequest ''backup'' ''my-project'' ''my-bucket'') \<noteq> ''restore'' \<and>
   dispatch (mkRequest ''backup'' ''my-project'' ''my-bucket'')
       (serving (mkRequest ''backup'' ''my-project'' ''my-bucket'') None done_op)
       newResponseWriter [CallNewFirestoreAdminClient] =
     (Return newResponseWriter, [CallNewFirestoreAdminClient]) \<and>
   status newResponseWriter = 200"
  by (simp add: dispatch_def validate_def mkRequest_def newResponseWriter_def status_def
      StatusOK_def)




subsection \<open>Failures of the external service\<close>

text \<open>
  Claim C7 says that a valid request whose external operation fails is answered with 500
  and the error text. Against a service that refuses every operation with "permission
  denied", the valid backup request is answered with 200 and an empty body, the export
  never being attempted; the valid restore request ends in the panic of the import call,
  so the handler writes no response and the error text appears nowhere.
\<close>

theorem refused_operation_not_reported:
  "validate (mkRequest ''backup'' ''p'' ''b'') = None \<and>
   ExportDocuments (serving (mkRequest ''backup'' ''p'' ''b'') None (Inl ''permission denied''))
       (exportRequest (mkRequest ''backup'' ''p'' ''b'')) = Inl ''permission denied'' \<and>
   function_handler (serving (mkRequest ''backup'' ''p'' ''b'') None (Inl ''permission denied'')) =
     (Return newResponseWriter,
      [CallValidate (mkRequest ''backup'' ''p'' ''b''), CallNewFirestoreAdminClient]) \<and>
   response (Return newResponseWriter) = Some (200, []) \<and>
   validate (mkRequest ''restore'' ''p'' ''b'') = None \<and>
   ImportDocuments (serving (mkRequest ''restore'' ''p'' ''b'') None (Inl ''permission denied''))
       (importRequest (mkRequest ''restore'' ''p'' ''b'')) = Inl ''permission denied'' \<and>
   function_handler (serving (mkRequest ''restore'' ''p'' ''b'') None (Inl ''permission denied'')) =
     (Panic,
      [CallValidate (mkRequest ''restore'' ''p'' ''b''), CallNewFirestoreAdminClient,
       CallImportDocuments (importRequest (mkRequest ''restore'' ''p'' ''b''))]) \<and>
   response Panic = None"
  by (simp add: function_handler_def dispatch_cases validate_def serving_def mkRequest_def
      newResponseWriter_def status_def body_def StatusOK_def)

subsection \<open>Abort before any export or import\<close>




end
